theory Spec2Isabelle
  imports Main "HOL-Library.Sublist"
begin

section \<open>Python strings\<close>

text \<open>
  A Python \<open>str\<close> is a sequence of Unicode code points, so the model's strings are
  lists of code points. \<open>ustr\<close> reads an ASCII literal as such a string; the link
  emoji of the renderings (U+1F517) is the one character outside ASCII.
\<close>

type_synonym pystr = "nat list"

definition ustr :: "string \<Rightarrow> pystr" where
  "ustr s = map of_char s"

definition link_emoji :: pystr where
  "link_emoji = [0x1F517]"

text \<open>
  \<open>text.replace(old, new)\<close>: the occurrences of \<open>old\<close> are found from the left,
  without overlap, and the text after a replaced occurrence is scanned on. With an empty
  \<open>old\<close>, Python puts \<open>new\<close> before every character and at the end.
\<close>

fun py_replace :: "pystr \<Rightarrow> pystr \<Rightarrow> pystr \<Rightarrow> pystr" where
  "py_replace [] old new = (if old = [] then new else [])"
| "py_replace (c # cs) old new =
     (if old = [] then new @ c # py_replace cs old new
      else if prefix old (c # cs) then new @ py_replace (drop (length old - 1) cs) old new
      else c # py_replace cs old new)"

text \<open>
  \<open>text.strip()\<close> without an argument removes the leading and trailing characters
  that \<open>str.isspace\<close> accepts: the ASCII controls 9 to 13 and 28 to 31, the space, and
  the Unicode white space beyond ASCII.
\<close>

definition py_isspace :: "nat \<Rightarrow> bool" where
  "py_isspace c =
     ((9 \<le> c \<and> c \<le> 13) \<or> (28 \<le> c \<and> c \<le> 32) \<or> c = 0x85 \<or> c = 0xA0 \<or> c = 0x1680
      \<or> (0x2000 \<le> c \<and> c \<le> 0x200A) \<or> c = 0x2028 \<or> c = 0x2029 \<or> c = 0x202F
      \<or> c = 0x205F \<or> c = 0x3000)"

definition py_strip :: "pystr \<Rightarrow> pystr" where
  "py_strip s = rev (dropWhile py_isspace (rev (dropWhile py_isspace s)))"

text \<open>\<open>sep.join(parts)\<close>.\<close>

fun py_join :: "pystr \<Rightarrow> pystr list \<Rightarrow> pystr" where
  "py_join sep [] = []"
| "py_join sep [x] = x"
| "py_join sep (x # y # ys) = x @ sep @ py_join sep (y # ys)"

text \<open>The decimal digits of a natural number, and \<open>str\<close> of a Python int.\<close>

fun digits :: "nat \<Rightarrow> pystr" where
  "digits n = (if n < 10 then [48 + n] else digits (n div 10) @ [48 + n mod 10])"

declare digits.simps [simp del]

definition str_int :: "int \<Rightarrow> pystr" where
  "str_int i = (if i < 0 then 45 # digits (nat (- i)) else digits (nat i))"

section \<open>The HTML cleaner\<close>

text \<open>
  \<open>html.unescape\<close> of the standard library returns a text without an ampersand as
  it is, and otherwise substitutes the character references by a regular expression over
  the table of HTML5 entities. That substitution is the parameter \<open>charref_sub\<close>;
  the ampersand is the code point 38.
\<close>

definition unescape :: "(pystr \<Rightarrow> pystr) \<Rightarrow> pystr \<Rightarrow> pystr" where
  "unescape charref_sub s = (if 38 \<notin> set s then s else charref_sub s)"

definition clean_html :: "(pystr \<Rightarrow> pystr) \<Rightarrow> pystr \<Rightarrow> pystr" where
  "clean_html charref_sub html_text =
     (let text = unescape charref_sub html_text;
          text = py_replace (py_replace text (ustr ''<p>'') (ustr '''')) (ustr ''</p>'') (ustr ''\<newline>\<newline>'');
          text = py_replace (py_replace text (ustr ''<code>'') (ustr ''`'')) (ustr ''</code>'') (ustr ''`'');
          text = py_replace (py_replace text (ustr ''<strong>'') (ustr ''**'')) (ustr ''</strong>'') (ustr ''**'');
          text = py_replace (py_replace text (ustr ''<em>'') (ustr ''*'')) (ustr ''</em>'') (ustr ''*'')
      in py_strip text)"

section \<open>Python values and exceptions\<close>

text \<open>
  The values the program handles at run time: what \<open>resp.json()\<close> returns and
  what the environment variables hold. A dict is the list of its items in insertion
  order, with distinct keys. A float is a finite double, given by its sign, mantissa and binary exponent,
  an infinity with its sign, or not-a-number; its arithmetic plays no part in the program.
\<close>

datatype pyfloat = Finite bool nat int | Infinity bool | NaN

datatype pyval =
    PNone
  | PBool bool
  | PInt int
  | PFloat pyfloat
  | PStr pystr
  | PList "pyval list"
  | PDict "(pystr \<times> pyval) list"

text \<open>
  The exceptions that can be raised inside a handler, all of them subclasses of
  \<open>Exception\<close>. \<open>RequestError\<close> stands for whatever \<open>client.get\<close> raises
  (connection, DNS, timeout, protocol), with its message.
\<close>

datatype exn =
    HTTPStatusError int
  | RequestError pystr
  | JSONDecodeError pystr
  | AttributeError pyval pystr
  | TypeError pystr pyval
  | KeyError pyval
  | IndexError pyval

definition ebind :: "exn + 'a \<Rightarrow> ('a \<Rightarrow> exn + 'b) \<Rightarrow> exn + 'b" where
  "ebind m f = (case m of Inl e \<Rightarrow> Inl e | Inr x \<Rightarrow> f x)"

record request =
  req_url :: pystr
  req_headers :: "(pystr \<times> pyval) list"
  req_params :: "(pystr \<times> pyval) list"
  req_timeout :: nat

text \<open>
  A response as the client sees it: the status code, and what \<open>resp.json()\<close> gives,
  the parsed body or the decoding error.
\<close>

record response =
  status_code :: int
  json_body :: "exn + pyval"

text \<open>
  The module's globals (\<open>os.environ.get\<close> gives \<open>None\<close> for an unset
  variable) and the library functions that are taken as parameters:
  \<open>str_exc\<close> is \<open>str(e)\<close> of an exception, \<open>str_other\<close> is \<open>str\<close> of
  a float, list or dict.
\<close>

record env =
  PAT :: pyval
  TEAM :: pyval
  BASE_URL :: pyval
  charref_sub :: "pystr \<Rightarrow> pystr"
  str_exc :: "exn \<Rightarrow> pystr"
  str_other :: "pyval \<Rightarrow> pystr"

text \<open>
  The network answers a request, given the requests issued before it, with a response
  or with the exception that \<open>client.get\<close> raises.
\<close>

type_synonym network = "request list \<Rightarrow> request \<Rightarrow> exn + response"

text \<open>The truth value of a Python value, as \<open>if x\<close> and \<open>not x\<close> test it.\<close>

fun truthy :: "pyval \<Rightarrow> bool" where
  "truthy PNone = False"
| "truthy (PBool b) = b"
| "truthy (PInt i) = (i \<noteq> 0)"
| "truthy (PFloat (Finite sign m e)) = (m \<noteq> 0)"
| "truthy (PFloat x) = True"
| "truthy (PStr s) = (s \<noteq> [])"
| "truthy (PList xs) = (xs \<noteq> [])"
| "truthy (PDict kvs) = (kvs \<noteq> [])"

text \<open>The text an f-string puts for \<open>{v}\<close>.\<close>

fun py_str :: "env \<Rightarrow> pyval \<Rightarrow> pystr" where
  "py_str env (PStr s) = s"
| "py_str env PNone = ustr ''None''"
| "py_str env (PBool b) = (if b then ustr ''True'' else ustr ''False'')"
| "py_str env (PInt i) = str_int i"
| "py_str env v = str_other env v"

text \<open>\<open>obj.get(key, default)\<close>: only a dict has the method.\<close>

fun dict_get :: "pyval \<Rightarrow> pystr \<Rightarrow> pyval \<Rightarrow> exn + pyval" where
  "dict_get (PDict kvs) k d = Inr (case map_of kvs k of None \<Rightarrow> d | Some v \<Rightarrow> v)"
| "dict_get v k d = Inl (AttributeError v (ustr ''get''))"

text \<open>\<open>obj[key]\<close> with a string key.\<close>

fun getitem :: "pyval \<Rightarrow> pystr \<Rightarrow> exn + pyval" where
  "getitem (PDict kvs) k = (case map_of kvs k of None \<Rightarrow> Inl (KeyError (PStr k)) | Some v \<Rightarrow> Inr v)"
| "getitem v k = Inl (TypeError (ustr ''subscript'') v)"

text \<open>\<open>obj[0]\<close>: the keys of a parsed JSON object are strings, never \<open>0\<close>.\<close>

fun getitem0 :: "pyval \<Rightarrow> exn + pyval" where
  "getitem0 (PList []) = Inl (IndexError (PList []))"
| "getitem0 (PList (x # xs)) = Inr x"
| "getitem0 (PStr []) = Inl (IndexError (PStr []))"
| "getitem0 (PStr (c # cs)) = Inr (PStr [c])"
| "getitem0 (PDict kvs) = Inl (KeyError (PInt 0))"
| "getitem0 v = Inl (TypeError (ustr ''subscript'') v)"

text \<open>
  The values a \<open>for\<close> loop visits: the elements of a list, the characters of a
  string, the keys of a dict; any other value is not iterable.
\<close>

fun py_iter :: "pyval \<Rightarrow> exn + pyval list" where
  "py_iter (PList xs) = Inr xs"
| "py_iter (PStr s) = Inr (map (\<lambda>c. PStr [c]) s)"
| "py_iter (PDict kvs) = Inr (map (\<lambda>kv. PStr (fst kv)) kvs)"
| "py_iter v = Inl (TypeError (ustr ''iter'') v)"

text \<open>
  \<open>clean_html\<close> called on whatever value a field holds. A string is cleaned. On a
  list or a dict, \<open>html.unescape\<close> tests \<open>'&' not in s\<close> on the elements or keys
  and either returns the value, whose missing \<open>replace\<close> is then an AttributeError, or
  hands it to the regular expression, a TypeError. Any other value is not a container,
  a TypeError of the membership test.
\<close>

fun clean_html_call :: "env \<Rightarrow> pyval \<Rightarrow> exn + pystr" where
  "clean_html_call env (PStr s) = Inr (clean_html (charref_sub env) s)"
| "clean_html_call env (PList xs) =
     Inl (if PStr [38] \<in> set xs then TypeError (ustr ''re.sub'') (PList xs)
          else AttributeError (PList xs) (ustr ''replace''))"
| "clean_html_call env (PDict kvs) =
     Inl (if [38] \<in> set (map fst kvs) then TypeError (ustr ''re.sub'') (PDict kvs)
          else AttributeError (PDict kvs) (ustr ''replace''))"
| "clean_html_call env v = Inl (TypeError (ustr ''in'') v)"

section \<open>The API client\<close>

text \<open>
  \<open>resp.raise_for_status()\<close> of httpx raises an HTTPStatusError unless the status
  code is one of 200 to 299.
\<close>

definition raise_for_status :: "response \<Rightarrow> exn + unit" where
  "raise_for_status resp =
     (if 200 \<le> status_code resp \<and> status_code resp \<le> 299 then Inr ()
      else Inl (HTTPStatusError (status_code resp)))"

text \<open>
  \<open>http_get\<close> issues one request, recorded at the end of the log of requests, and
  returns the parsed body or the exception raised.
\<close>

definition http_get ::
  "env \<Rightarrow> network \<Rightarrow> pystr \<Rightarrow> (pystr \<times> pyval) list \<Rightarrow> request list
     \<Rightarrow> (exn + pyval) \<times> request list" where
  "http_get env net url params log =
     (let headers = [(ustr ''X-API-Access-Token'', PAT env)];
          req = \<lparr>req_url = url, req_headers = headers, req_params = params, req_timeout = 10\<rparr>
      in (ebind (net log req) (\<lambda>resp.
          ebind (raise_for_status resp) (\<lambda>_.
          json_body resp)),
          log @ [req]))"

text \<open>
  \<open>except Exception as e: return f"HTTP Error: {str(e)}"\<close>, the handler of every
  tool around its whole body.
\<close>

definition except_Exception :: "env \<Rightarrow> exn + pystr \<Rightarrow> pystr" where
  "except_Exception env r =
     (case r of Inr s \<Rightarrow> s | Inl e \<Rightarrow> ustr ''HTTP Error: '' @ str_exc env e)"

text \<open>\<open>results = []; for x in xs: results.append(...)\<close>, where the body may raise.\<close>

fun for_append :: "(pyval \<Rightarrow> exn + pystr) \<Rightarrow> pyval list \<Rightarrow> pystr list \<Rightarrow> exn + pystr list" where
  "for_append f [] results = Inr results"
| "for_append f (x # xs) results =
     (case f x of Inl e \<Rightarrow> Inl e | Inr s \<Rightarrow> for_append f xs (results @ [s]))"

section \<open>The tool handlers\<close>

subsection \<open>Search questions\<close>

text \<open>The body of the loop over the questions: one entry of the result.\<close>

definition render_question :: "env \<Rightarrow> pyval \<Rightarrow> exn + pystr" where
  "render_question env q =
     ebind (dict_get q (ustr ''title'') (PStr [])) (\<lambda>t.
     ebind (clean_html_call env t) (\<lambda>title.
     ebind (dict_get q (ustr ''link'') (PStr (ustr ''#''))) (\<lambda>link.
     ebind (dict_get q (ustr ''body'') (PStr [])) (\<lambda>b.
     ebind (clean_html_call env b) (\<lambda>body.
     Inr (ustr ''### '' @ title @ ustr ''\<newline>'' @ body @ ustr ''\<newline>'' @ link_emoji
          @ ustr '' [View Question]('' @ py_str env link @ ustr '')''))))))"

text \<open>What the handler does with the data of a successful request.\<close>

definition search_questions_body :: "env \<Rightarrow> pyval \<Rightarrow> exn + pystr" where
  "search_questions_body env data =
     ebind (dict_get data (ustr ''items'') PNone) (\<lambda>found.
     if \<not> truthy found then Inr (ustr ''No relevant questions found.'')
     else
       ebind (getitem data (ustr ''items'')) (\<lambda>items.
       ebind (py_iter items) (\<lambda>qs.
       ebind (for_append (render_question env) qs []) (\<lambda>results.
       Inr (py_join (ustr ''\<newline>\<newline>'') results)))))"

definition stackoverflow_search_questions ::
  "env \<Rightarrow> network \<Rightarrow> pystr \<Rightarrow> request list \<Rightarrow> pystr \<times> request list" where
  "stackoverflow_search_questions env net query log =
     (let params = [(ustr ''order'', PStr (ustr ''desc'')),
                    (ustr ''sort'', PStr (ustr ''relevance'')),
                    (ustr ''q'', PStr query),
                    (ustr ''team'', TEAM env),
                    (ustr ''pagesize'', PInt 5),
                    (ustr ''filter'', PStr (ustr ''!9_bDE(fI5''))];
          url = py_str env (BASE_URL env) @ ustr ''/search/advanced'';
          (data, log') = http_get env net url params log
      in (except_Exception env (ebind data (search_questions_body env)), log'))"

subsection \<open>Search answers\<close>

text \<open>
  \<open>[i for i in ... if i.get("item_type") == "answer"]\<close>: an element without the
  method \<open>get\<close> raises when the comprehension reaches it.
\<close>

fun filter_answers :: "pyval list \<Rightarrow> exn + pyval list" where
  "filter_answers [] = Inr []"
| "filter_answers (i # rest) =
     (case dict_get i (ustr ''item_type'') PNone of
        Inl e \<Rightarrow> Inl e
      | Inr t \<Rightarrow>
          (case filter_answers rest of
             Inl e \<Rightarrow> Inl e
           | Inr kept \<Rightarrow> Inr (if t = PStr (ustr ''answer'') then i # kept else kept)))"

definition render_answer :: "env \<Rightarrow> pyval \<Rightarrow> exn + pystr" where
  "render_answer env ans =
     ebind (dict_get ans (ustr ''excerpt'') (PStr [])) (\<lambda>x.
     ebind (clean_html_call env x) (\<lambda>excerpt.
     ebind (dict_get ans (ustr ''question_id'') PNone) (\<lambda>qid.
     let link = (if truthy qid
                 then ustr ''https://'' @ py_str env (TEAM env) @ ustr ''.stackoverflowteams.com/c/''
                      @ py_str env (TEAM env) @ ustr ''/questions/'' @ py_str env qid
                 else ustr ''#'')
     in Inr (ustr ''**Answer Excerpt:**\<newline>'' @ excerpt @ ustr ''\<newline>'' @ link_emoji
             @ ustr '' [View Answer]('' @ link @ ustr '')''))))"

definition search_answers_body :: "env \<Rightarrow> pyval \<Rightarrow> exn + pystr" where
  "search_answers_body env data =
     ebind (dict_get data (ustr ''items'') (PList [])) (\<lambda>found.
     ebind (py_iter found) (\<lambda>all_items.
     ebind (filter_answers all_items) (\<lambda>items.
     if items = [] then Inr (ustr ''No relevant answers found.'')
     else
       ebind (for_append (render_answer env) items []) (\<lambda>results.
       Inr (py_join (ustr ''\<newline>\<newline>'') results)))))"

definition stackoverflow_search_answers ::
  "env \<Rightarrow> network \<Rightarrow> pystr \<Rightarrow> request list \<Rightarrow> pystr \<times> request list" where
  "stackoverflow_search_answers env net query log =
     (let params = [(ustr ''order'', PStr (ustr ''desc'')),
                    (ustr ''sort'', PStr (ustr ''relevance'')),
                    (ustr ''q'', PStr query),
                    (ustr ''team'', TEAM env),
                    (ustr ''pagesize'', PInt 5)];
          url = py_str env (BASE_URL env) @ ustr ''/search/excerpts'';
          (data, log') = http_get env net url params log
      in (except_Exception env (ebind data (search_answers_body env)), log'))"

subsection \<open>Search excerpts\<close>

definition render_excerpt :: "env \<Rightarrow> pyval \<Rightarrow> exn + pystr" where
  "render_excerpt env item =
     ebind (dict_get item (ustr ''item_type'') (PStr (ustr ''unknown''))) (\<lambda>item_type.
     ebind (dict_get item (ustr ''title'') (PStr [])) (\<lambda>t.
     ebind (clean_html_call env t) (\<lambda>title.
     ebind (dict_get item (ustr ''excerpt'') (PStr [])) (\<lambda>x.
     ebind (clean_html_call env x) (\<lambda>excerpt.
     ebind (dict_get item (ustr ''question_id'') PNone) (\<lambda>qid.
     let link = (if truthy qid
                 then ustr ''https://'' @ py_str env (TEAM env) @ ustr ''.stackoverflowteams.com/c/''
                      @ py_str env (TEAM env) @ ustr ''/questions/'' @ py_str env qid
                 else ustr ''#'')
     in Inr (ustr ''**Type:** '' @ py_str env item_type @ ustr ''\<newline>**Title:** '' @ title
             @ ustr ''\<newline>'' @ excerpt @ ustr ''\<newline>'' @ link_emoji
             @ ustr '' [View Full Post]('' @ link @ ustr '')'')))))))"

definition search_excerpts_body :: "env \<Rightarrow> pyval \<Rightarrow> exn + pystr" where
  "search_excerpts_body env data =
     ebind (dict_get data (ustr ''items'') PNone) (\<lambda>found.
     if \<not> truthy found then Inr (ustr ''No relevant excerpts found.'')
     else
       ebind (getitem data (ustr ''items'')) (\<lambda>items.
       ebind (py_iter items) (\<lambda>its.
       ebind (for_append (render_excerpt env) its []) (\<lambda>results.
       Inr (py_join (ustr ''\<newline>\<newline>'') results)))))"

definition stackoverflow_search_excerpts ::
  "env \<Rightarrow> network \<Rightarrow> pystr \<Rightarrow> request list \<Rightarrow> pystr \<times> request list" where
  "stackoverflow_search_excerpts env net query log =
     (let params = [(ustr ''order'', PStr (ustr ''desc'')),
                    (ustr ''sort'', PStr (ustr ''relevance'')),
                    (ustr ''q'', PStr query),
                    (ustr ''team'', TEAM env),
                    (ustr ''pagesize'', PInt 5)];
          url = py_str env (BASE_URL env) @ ustr ''/search/excerpts'';
          (data, log') = http_get env net url params log
      in (except_Exception env (ebind data (search_excerpts_body env)), log'))"

subsection \<open>Fetch a question by its id\<close>

text \<open>The text that one answer adds to the response.\<close>

definition render_full_answer :: "env \<Rightarrow> pyval \<Rightarrow> exn + pystr" where
  "render_full_answer env ans =
     ebind (dict_get ans (ustr ''body'') (PStr [])) (\<lambda>b.
     ebind (clean_html_call env b) (\<lambda>body.
     ebind (dict_get ans (ustr ''score'') (PInt 0)) (\<lambda>score.
     Inr (ustr ''\<newline>**Score:** '' @ py_str env score @ ustr ''\<newline>'' @ body
          @ ustr ''\<newline>\<newline>---''))))"

text \<open>\<open>for ans in answers: response += ...\<close>.\<close>

fun for_answers :: "env \<Rightarrow> pyval list \<Rightarrow> pystr \<Rightarrow> exn + pystr" where
  "for_answers env [] response = Inr response"
| "for_answers env (ans # rest) response =
     (case render_full_answer env ans of
        Inl e \<Rightarrow> Inl e
      | Inr s \<Rightarrow> for_answers env rest (response @ s))"

text \<open>What the handler does once both requests have returned their data.\<close>

definition fetch_question_body :: "env \<Rightarrow> pyval \<Rightarrow> pyval \<Rightarrow> exn + pystr" where
  "fetch_question_body env q_data a_data =
     ebind (dict_get q_data (ustr ''items'') PNone) (\<lambda>found.
     if \<not> truthy found then Inr (ustr ''Question not found.'')
     else
       ebind (getitem q_data (ustr ''items'')) (\<lambda>items.
       ebind (getitem0 items) (\<lambda>question.
       ebind (dict_get question (ustr ''title'') (PStr [])) (\<lambda>t.
       ebind (clean_html_call env t) (\<lambda>title.
       ebind (dict_get question (ustr ''body'') (PStr [])) (\<lambda>b.
       ebind (clean_html_call env b) (\<lambda>body.
       let response = ustr ''## '' @ title @ ustr ''\<newline>\<newline>'' @ body @ ustr ''\<newline>\<newline>''
       in ebind (dict_get a_data (ustr ''items'') (PList [])) (\<lambda>answers.
          if truthy answers
          then ebind (py_iter answers) (\<lambda>answer_list.
               for_answers env answer_list (response @ ustr ''\<newline>\<newline>### Top Answers:\<newline>''))
          else Inr (response @ ustr ''\<newline>\<newline>_No answers found._'')))))))))"

definition stackoverflow_fetch_question_by_id ::
  "env \<Rightarrow> network \<Rightarrow> pystr \<Rightarrow> request list \<Rightarrow> pystr \<times> request list" where
  "stackoverflow_fetch_question_by_id env net question_id log =
     (let q_url = py_str env (BASE_URL env) @ ustr ''/questions/'' @ question_id;
          a_url = py_str env (BASE_URL env) @ ustr ''/questions/'' @ question_id @ ustr ''/answers'';
          (q_res, log1) =
            http_get env net q_url [(ustr ''team'', TEAM env), (ustr ''filter'', PStr (ustr ''!9_bDE(fI5''))] log
      in case q_res of
           Inl e \<Rightarrow> (except_Exception env (Inl e), log1)
         | Inr q_data \<Rightarrow>
             (let (a_res, log2) =
                    http_get env net a_url [(ustr ''team'', TEAM env), (ustr ''filter'', PStr (ustr ''!9_bDE(fI5''))] log1
              in (except_Exception env (ebind a_res (fetch_question_body env q_data)), log2)))"

subsection \<open>Search by tags\<close>

definition render_tagged :: "env \<Rightarrow> pyval \<Rightarrow> exn + pystr" where
  "render_tagged env q =
     ebind (dict_get q (ustr ''title'') (PStr [])) (\<lambda>t.
     ebind (clean_html_call env t) (\<lambda>title.
     ebind (dict_get q (ustr ''link'') (PStr (ustr ''#''))) (\<lambda>link.
     Inr (ustr ''**'' @ title @ ustr ''**\<newline>'' @ link_emoji
          @ ustr '' [View Question]('' @ py_str env link @ ustr '')''))))"

definition search_by_tags_body :: "env \<Rightarrow> pyval \<Rightarrow> exn + pystr" where
  "search_by_tags_body env data =
     ebind (dict_get data (ustr ''items'') PNone) (\<lambda>found.
     if \<not> truthy found then Inr (ustr ''No questions found for the given tags.'')
     else
       ebind (getitem data (ustr ''items'')) (\<lambda>items.
       ebind (py_iter items) (\<lambda>qs.
       ebind (for_append (render_tagged env) qs []) (\<lambda>results.
       Inr (py_join (ustr ''\<newline>\<newline>'') results)))))"

definition stackoverflow_search_by_tags ::
  "env \<Rightarrow> network \<Rightarrow> pystr \<Rightarrow> request list \<Rightarrow> pystr \<times> request list" where
  "stackoverflow_search_by_tags env net tags log =
     (let params = [(ustr ''order'', PStr (ustr ''desc'')),
                    (ustr ''sort'', PStr (ustr ''activity'')),
                    (ustr ''tagged'', PStr tags),
                    (ustr ''team'', TEAM env),
                    (ustr ''pagesize'', PInt 5)];
          url = py_str env (BASE_URL env) @ ustr ''/questions'';
          (data, log') = http_get env net url params log
      in (except_Exception env (ebind data (search_by_tags_body env)), log'))"

subsection \<open>The registered tools\<close>

text \<open>The five functions registered with \<open>@mcp.tool\<close>, called by name.\<close>

datatype tool =
    Search_questions
  | Search_answers
  | Search_excerpts
  | Fetch_question_by_id
  | Search_by_tags

fun call_tool :: "env \<Rightarrow> network \<Rightarrow> tool \<Rightarrow> pystr \<Rightarrow> request list \<Rightarrow> pystr \<times> request list" where
  "call_tool env net Search_questions arg log = stackoverflow_search_questions env net arg log"
| "call_tool env net Search_answers arg log = stackoverflow_search_answers env net arg log"
| "call_tool env net Search_excerpts arg log = stackoverflow_search_excerpts env net arg log"
| "call_tool env net Fetch_question_by_id arg log = stackoverflow_fetch_question_by_id env net arg log"
| "call_tool env net Search_by_tags arg log = stackoverflow_search_by_tags env net arg log"

section \<open>Notions of the specification\<close>

text \<open>
  What the API client returns or raises for a request issued after the requests of
  \<open>log\<close>: the outcome of the network, of the status check and of the parsing, in this
  order.
\<close>

definition api_result :: "network \<Rightarrow> request list \<Rightarrow> request \<Rightarrow> exn + pyval" where
  "api_result net log req =
     ebind (net log req) (\<lambda>resp. ebind (raise_for_status resp) (\<lambda>_. json_body resp))"





text \<open>The value of a field of a JSON object, or the default when the field is absent.\<close>

definition field_or :: "(pystr \<times> pyval) list \<Rightarrow> pystr \<Rightarrow> pyval \<Rightarrow> pyval" where
  "field_or kvs k d = (case map_of kvs k of None \<Rightarrow> d | Some v \<Rightarrow> v)"



text \<open>An item that is a JSON object, and an item whose \<open>item_type\<close> is \<open>answer\<close>.\<close>

fun is_object :: "pyval \<Rightarrow> bool" where
  "is_object (PDict kvs) = True"
| "is_object v = False"

fun is_answer :: "pyval \<Rightarrow> bool" where
  "is_answer (PDict kvs) = (map_of kvs (ustr ''item_type'') = Some (PStr (ustr ''answer'')))"
| "is_answer v = False"


text \<open>
  The two requests of \<open>stackoverflow_fetch_question_by_id\<close>, as \<open>http_get\<close>
  builds them: for the question, then for its answers.
\<close>

definition question_request :: "env \<Rightarrow> pystr \<Rightarrow> request" where
  "question_request env question_id =
     \<lparr>req_url = py_str env (BASE_URL env) @ ustr ''/questions/'' @ question_id,
      req_headers = [(ustr ''X-API-Access-Token'', PAT env)],
      req_params = [(ustr ''team'', TEAM env), (ustr ''filter'', PStr (ustr ''!9_bDE(fI5''))],
      req_timeout = 10\<rparr>"

definition answers_request :: "env \<Rightarrow> pystr \<Rightarrow> request" where
  "answers_request env question_id =
     \<lparr>req_url = py_str env (BASE_URL env) @ ustr ''/questions/'' @ question_id @ ustr ''/answers'',
      req_headers = [(ustr ''X-API-Access-Token'', PAT env)],
      req_params = [(ustr ''team'', TEAM env), (ustr ''filter'', PStr (ustr ''!9_bDE(fI5''))],
      req_timeout = 10\<rparr>"

subsection \<open>A concrete setting for the worked examples\<close>

text \<open>
  The team \<open>acme\<close>; the texts of the examples hold no ampersand, so that the entity
  table plays no part in them. A scripted network answers the n-th request with the n-th
  entry of its script and refuses the connection afterwards.
\<close>

definition example_env :: env where
  "example_env =
     \<lparr>PAT = PStr (ustr ''secret''), TEAM = PStr (ustr ''acme''),
      BASE_URL = PStr (ustr ''https://api.example.com/2.3''),
      charref_sub = (\<lambda>s. s),
      str_exc = (\<lambda>e. case e of HTTPStatusError c \<Rightarrow> ustr ''status '' @ str_int c
                              | _ \<Rightarrow> ustr ''failed''),
      str_other = (\<lambda>v. ustr ''?'')\<rparr>"


definition ok :: "pyval \<Rightarrow> exn + response" where
  "ok data = Inr \<lparr>status_code = 200, json_body = Inr data\<rparr>"

definition status :: "int \<Rightarrow> exn + response" where
  "status code = Inr \<lparr>status_code = code, json_body = Inr PNone\<rparr>"

definition scripted :: "(exn + response) list \<Rightarrow> network" where
  "scripted script log req =
     (if length log < length script then script ! length log
      else Inl (RequestError (ustr ''connection refused'')))"

definition items_of :: "pyval list \<Rightarrow> pyval" where
  "items_of xs = PDict [(ustr ''items'', PList xs)]"

section \<open>The HTML cleaner: proofs\<close>


















section \<open>The API client: proofs\<close>

lemma http_get_eq:
  "http_get env net url params log =
     (api_result net log \<lparr>req_url = url, req_headers = [(ustr ''X-API-Access-Token'', PAT env)],
                            req_params = params, req_timeout = 10\<rparr>,
      log @ [\<lparr>req_url = url, req_headers = [(ustr ''X-API-Access-Token'', PAT env)],
               req_params = params, req_timeout = 10\<rparr>])"
  by (simp add: http_get_def api_result_def Let_def)

text \<open>
  Claim C6. The one request that \<open>http_get\<close> issues carries the header
  \<open>X-API-Access-Token\<close> with the configured token and a timeout of 10 seconds. If the
  network answers it with a status from 200 to 299, \<open>http_get\<close> returns what parsing the
  body as JSON gives; with any other status it raises an HTTPStatusError and returns no
  value; an exception of the network is raised as it is.
\<close>

theorem http_get_contract:
  "snd (http_get env net url params log) =
     log @ [\<lparr>req_url = url, req_headers = [(ustr ''X-API-Access-Token'', PAT env)],
              req_params = params, req_timeout = 10\<rparr>]
   \<and> (\<forall>resp. net log \<lparr>req_url = url, req_headers = [(ustr ''X-API-Access-Token'', PAT env)],
                       req_params = params, req_timeout = 10\<rparr> = Inr resp
          \<longrightarrow> fst (http_get env net url params log) =
              (if 200 \<le> status_code resp \<and> status_code resp \<le> 299 then json_body resp
               else Inl (HTTPStatusError (status_code resp))))
   \<and> (\<forall>e. net log \<lparr>req_url = url, req_headers = [(ustr ''X-API-Access-Token'', PAT env)],
                    req_params = params, req_timeout = 10\<rparr> = Inl e
          \<longrightarrow> fst (http_get env net url params log) = Inl e)"
  by (simp add: http_get_def Let_def ebind_def raise_for_status_def)

theorem http_get_contract_witness:
  "fst (http_get example_env (scripted [status 404, ok (items_of [])]) (ustr ''u'') [] [])
     = Inl (HTTPStatusError 404)
   \<and> fst (http_get example_env (scripted [ok (items_of [])]) (ustr ''u'') [] []) = Inr (items_of [])
   \<and> fst (http_get example_env (scripted []) (ustr ''u'') [] [])
     = Inl (RequestError (ustr ''connection refused''))"
  using http_get_contract [of example_env "scripted [status 404, ok (items_of [])]" "ustr ''u''" "[]" "[]"]
        http_get_contract [of example_env "scripted [ok (items_of [])]" "ustr ''u''" "[]" "[]"]
        http_get_contract [of example_env "scripted []" "ustr ''u''" "[]" "[]"]
  by (simp add: scripted_def status_def ok_def)

section \<open>The handlers: one run\<close>

text \<open>
  A run of a handler with one request: the request goes out, and the result is that
  of the body on the data, or the error text.
\<close>

lemma search_questions_run:
  "\<exists>req. stackoverflow_search_questions env net query log =
     (except_Exception env (ebind (api_result net log req) (search_questions_body env)), log @ [req])"
  by (simp add: stackoverflow_search_questions_def http_get_eq Let_def)

lemma search_answers_run:
  "\<exists>req. stackoverflow_search_answers env net query log =
     (except_Exception env (ebind (api_result net log req) (search_answers_body env)), log @ [req])"
  by (simp add: stackoverflow_search_answers_def http_get_eq Let_def)

lemma search_excerpts_run:
  "\<exists>req. stackoverflow_search_excerpts env net query log =
     (except_Exception env (ebind (api_result net log req) (search_excerpts_body env)), log @ [req])"
  by (simp add: stackoverflow_search_excerpts_def http_get_eq Let_def)

lemma search_by_tags_run:
  "\<exists>req. stackoverflow_search_by_tags env net tags log =
     (except_Exception env (ebind (api_result net log req) (search_by_tags_body env)), log @ [req])"
  by (simp add: stackoverflow_search_by_tags_def http_get_eq Let_def)

lemma fetch_question_run:
  "stackoverflow_fetch_question_by_id env net question_id log =
     (case api_result net log (question_request env question_id) of
        Inl e \<Rightarrow> (ustr ''HTTP Error: '' @ str_exc env e, log @ [question_request env question_id])
      | Inr q_data \<Rightarrow>
          (except_Exception env
             (ebind (api_result net (log @ [question_request env question_id])
                       (answers_request env question_id))
                (fetch_question_body env q_data)),
           log @ [question_request env question_id, answers_request env question_id]))"
  by (simp add: stackoverflow_fetch_question_by_id_def http_get_eq Let_def except_Exception_def
      question_request_def answers_request_def split: sum.splits)

lemma except_Inl: "except_Exception env (ebind (Inl e) f) = ustr ''HTTP Error: '' @ str_exc env e"
  by (simp add: except_Exception_def ebind_def)

lemma single_request_failure:
  assumes run: "h = (except_Exception env (ebind (api_result net log req) body), log @ [req])"
    and log: "snd h = log @ rs" and i: "i < length rs"
    and fail: "api_result net (log @ take i rs) (rs ! i) = Inl e"
  shows "fst h = ustr ''HTTP Error: '' @ str_exc env e"
proof -
  from run log have rs: "rs = [req]" by simp
  with i have "i = 0" by simp
  with rs fail have "api_result net log req = Inl e" by simp
  with run show ?thesis by (simp add: except_Inl)
qed

lemma call_tool_failure:
  assumes log: "snd (call_tool env net t arg log) = log @ rs" and i: "i < length rs"
    and fail: "api_result net (log @ take i rs) (rs ! i) = Inl e"
  shows "\<exists>e'. fst (call_tool env net t arg log) = ustr ''HTTP Error: '' @ str_exc env e'"
proof (cases t)
  case Search_questions
  obtain req where "stackoverflow_search_questions env net arg log =
     (except_Exception env (ebind (api_result net log req) (search_questions_body env)), log @ [req])"
    using search_questions_run by blast
  from single_request_failure [OF this] log i fail Search_questions show ?thesis by auto
next
  case Search_answers
  obtain req where "stackoverflow_search_answers env net arg log =
     (except_Exception env (ebind (api_result net log req) (search_answers_body env)), log @ [req])"
    using search_answers_run by blast
  from single_request_failure [OF this] log i fail Search_answers show ?thesis by auto
next
  case Search_excerpts
  obtain req where "stackoverflow_search_excerpts env net arg log =
     (except_Exception env (ebind (api_result net log req) (search_excerpts_body env)), log @ [req])"
    using search_excerpts_run by blast
  from single_request_failure [OF this] log i fail Search_excerpts show ?thesis by auto
next
  case Search_by_tags
  obtain req where "stackoverflow_search_by_tags env net arg log =
     (except_Exception env (ebind (api_result net log req) (search_by_tags_body env)), log @ [req])"
    using search_by_tags_run by blast
  from single_request_failure [OF this] log i fail Search_by_tags show ?thesis by auto
next
  case Fetch_question_by_id
  define r1 where "r1 = question_request env arg"
  define r2 where "r2 = answers_request env arg"
  note run = fetch_question_run [of env net arg log, folded r1_def r2_def]
  show ?thesis
  proof (cases "api_result net log r1")
    case (Inl e1)
    with run Fetch_question_by_id show ?thesis by auto
  next
    case (Inr q_data)
    with run log Fetch_question_by_id have rs: "rs = [r1, r2]" by simp
    with i have "i = 0 \<or> i = 1" by auto
    with rs fail Inr have "api_result net (log @ [r1]) r2 = Inl e" by auto
    with run Inr Fetch_question_by_id show ?thesis by (auto simp add: except_Inl)
  qed
qed

text \<open>
  Claim C1. Whichever of the five tools is called: if a request that the handler issued
  (the \<open>i\<close>-th of the requests \<open>rs\<close> that the run adds to the log) made the API
  client raise, be it an exception of the network, a status outside 200 to 299 or a body
  that is no JSON, the handler returns a string that starts with \<open>HTTP Error: \<close>.
  A handler is a total function to strings: every exception of its body is a value that
  \<open>except_Exception\<close> turns into a string. Cancellation of the coroutine is outside the
  model.
\<close>

theorem handlers_catch_client_failures:
  "snd (call_tool env net t arg log) = log @ rs \<Longrightarrow> i < length rs \<Longrightarrow>
   api_result net (log @ take i rs) (rs ! i) = Inl e \<Longrightarrow>
   prefix (ustr ''HTTP Error: '') (fst (call_tool env net t arg log))"
  using call_tool_failure [of env net t arg log rs i e] by auto

theorem handlers_catch_client_failures_witness:
  "snd (call_tool example_env (scripted [ok (items_of []), status 500]) Fetch_question_by_id (ustr ''7'') [])
     = [] @ [question_request example_env (ustr ''7''), answers_request example_env (ustr ''7'')]
   \<and> (1::nat) < length [question_request example_env (ustr ''7''), answers_request example_env (ustr ''7'')]
   \<and> api_result (scripted [ok (items_of []), status 500])
         ([] @ take 1 [question_request example_env (ustr ''7''), answers_request example_env (ustr ''7'')])
         ([question_request example_env (ustr ''7''), answers_request example_env (ustr ''7'')] ! 1)
       = Inl (HTTPStatusError 500)
   \<and> prefix (ustr ''HTTP Error: '')
         (fst (call_tool example_env (scripted [ok (items_of []), status 500]) Fetch_question_by_id
                 (ustr ''7'') []))"
proof -
  have h1: "snd (call_tool example_env (scripted [ok (items_of []), status 500]) Fetch_question_by_id
                   (ustr ''7'') [])
     = [] @ [question_request example_env (ustr ''7''), answers_request example_env (ustr ''7'')]"
    by (simp add: fetch_question_run api_result_def scripted_def ok_def ebind_def raise_for_status_def)
  have h2: "(1::nat) < length [question_request example_env (ustr ''7''), answers_request example_env (ustr ''7'')]"
    by simp
  have h3: "api_result (scripted [ok (items_of []), status 500])
         ([] @ take 1 [question_request example_env (ustr ''7''), answers_request example_env (ustr ''7'')])
         ([question_request example_env (ustr ''7''), answers_request example_env (ustr ''7'')] ! 1)
       = Inl (HTTPStatusError 500)"
    by (simp add: api_result_def scripted_def status_def ebind_def raise_for_status_def)
  from handlers_catch_client_failures [OF h1 h2 h3] h1 h2 h3 show ?thesis by blast
qed

section \<open>Fetching a question: the order of the requests\<close>

lemma http_error_not_question_sentinel:
  "ustr ''HTTP Error: '' @ x \<noteq> ustr ''Question not found.''"
  by (simp add: ustr_def)

lemma except_Inr: "except_Exception env (ebind (Inr d) f) = except_Exception env (f d)"
  by (simp add: ebind_def)

text \<open>
  Claim C9. \<open>stackoverflow_fetch_question_by_id\<close> issues the request for the answers as
  soon as the request for the question has returned data, before it looks at the items of
  the question. So when the first request succeeds, with whatever items, and the second one
  fails, the handler returns the \<open>HTTP Error: \<close> text of that failure and not
  \<open>Question not found.\<close>; and whenever the handler returns \<open>Question not found.\<close>,
  both requests have succeeded.
\<close>

theorem fetch_question_awaits_answers:
  "(api_result net log (question_request env question_id) = Inr q_data \<longrightarrow>
      snd (stackoverflow_fetch_question_by_id env net question_id log)
        = log @ [question_request env question_id, answers_request env question_id]
      \<and> (\<forall>e. api_result net (log @ [question_request env question_id])
                (answers_request env question_id) = Inl e \<longrightarrow>
             fst (stackoverflow_fetch_question_by_id env net question_id log)
               = ustr ''HTTP Error: '' @ str_exc env e
             \<and> fst (stackoverflow_fetch_question_by_id env net question_id log)
               \<noteq> ustr ''Question not found.''))
   \<and> (fst (stackoverflow_fetch_question_by_id env net question_id log) = ustr ''Question not found.''
        \<longrightarrow> (\<exists>q a. api_result net log (question_request env question_id) = Inr q
                  \<and> api_result net (log @ [question_request env question_id])
                        (answers_request env question_id) = Inr a))"
proof (intro conjI impI allI)
  assume q: "api_result net log (question_request env question_id) = Inr q_data"
  then show "snd (stackoverflow_fetch_question_by_id env net question_id log)
        = log @ [question_request env question_id, answers_request env question_id]"
    by (simp add: fetch_question_run)
  fix e
  assume a: "api_result net (log @ [question_request env question_id])
                (answers_request env question_id) = Inl e"
  from q a show err: "fst (stackoverflow_fetch_question_by_id env net question_id log)
               = ustr ''HTTP Error: '' @ str_exc env e"
    by (simp add: fetch_question_run except_Inl)
  then show "fst (stackoverflow_fetch_question_by_id env net question_id log)
               \<noteq> ustr ''Question not found.''"
    by (simp add: http_error_not_question_sentinel)
next
  assume s: "fst (stackoverflow_fetch_question_by_id env net question_id log) = ustr ''Question not found.''"
  show "\<exists>q a. api_result net log (question_request env question_id) = Inr q
                  \<and> api_result net (log @ [question_request env question_id])
                        (answers_request env question_id) = Inr a"
  proof (cases "api_result net log (question_request env question_id)")
    case (Inl e)
    with s show ?thesis
      by (simp add: fetch_question_run http_error_not_question_sentinel)
  next
    case q: (Inr q)
    show ?thesis
    proof (cases "api_result net (log @ [question_request env question_id]) (answers_request env question_id)")
      case (Inl e)
      with s q show ?thesis
        by (simp add: fetch_question_run except_Inl http_error_not_question_sentinel)
    next
      case (Inr a)
      with q show ?thesis by simp
    qed
  qed
qed

theorem fetch_question_awaits_answers_witness:
  "api_result (scripted [ok (items_of []), status 500]) [] (question_request example_env (ustr ''7''))
     = Inr (items_of [])
   \<and> api_result (scripted [ok (items_of []), status 500]) ([] @ [question_request example_env (ustr ''7'')])
       (answers_request example_env (ustr ''7'')) = Inl (HTTPStatusError 500)
   \<and> fst (stackoverflow_fetch_question_by_id example_env (scripted [ok (items_of []), status 500]) (ustr ''7'') [])
       = ustr ''HTTP Error: status 500''
   \<and> fst (stackoverflow_fetch_question_by_id example_env (scripted [ok (items_of []), ok (items_of [])]) (ustr ''7'') [])
       = ustr ''Question not found.''
   \<and> (\<exists>q a. api_result (scripted [ok (items_of []), ok (items_of [])]) [] (question_request example_env (ustr ''7'')) = Inr q
         \<and> api_result (scripted [ok (items_of []), ok (items_of [])]) ([] @ [question_request example_env (ustr ''7'')])
             (answers_request example_env (ustr ''7'')) = Inr a)"
proof -
  have h1: "api_result (scripted [ok (items_of []), status 500]) [] (question_request example_env (ustr ''7''))
     = Inr (items_of [])"
    by (simp add: api_result_def scripted_def ok_def ebind_def raise_for_status_def)
  have h2: "api_result (scripted [ok (items_of []), status 500]) ([] @ [question_request example_env (ustr ''7'')])
       (answers_request example_env (ustr ''7'')) = Inl (HTTPStatusError 500)"
    by (simp add: api_result_def scripted_def status_def ebind_def raise_for_status_def)
  have s: "str_exc example_env (HTTPStatusError 500) = ustr ''status 500''"
    by (simp add: example_env_def str_int_def digits.simps ustr_def)
  have h3: "fst (stackoverflow_fetch_question_by_id example_env (scripted [ok (items_of []), ok (items_of [])]) (ustr ''7'') [])
       = ustr ''Question not found.''"
    by (simp add: fetch_question_run api_result_def scripted_def ok_def ebind_def raise_for_status_def
        except_Exception_def fetch_question_body_def items_of_def)
  note a = fetch_question_awaits_answers [of "scripted [ok (items_of []), status 500]" "[]"
             example_env "ustr ''7''" "items_of []"]
  note b = fetch_question_awaits_answers [of "scripted [ok (items_of []), ok (items_of [])]" "[]"
             example_env "ustr ''7''" "items_of []"]
  from a h1 h2 have "fst (stackoverflow_fetch_question_by_id example_env (scripted [ok (items_of []), status 500]) (ustr ''7'') [])
       = ustr ''HTTP Error: '' @ str_exc example_env (HTTPStatusError 500)"
    by blast
  then have e: "fst (stackoverflow_fetch_question_by_id example_env (scripted [ok (items_of []), status 500]) (ustr ''7'') [])
       = ustr ''HTTP Error: status 500''"
    by (simp add: s ustr_def)
  from b h3 have "\<exists>q a. api_result (scripted [ok (items_of []), ok (items_of [])]) [] (question_request example_env (ustr ''7'')) = Inr q
         \<and> api_result (scripted [ok (items_of []), ok (items_of [])]) ([] @ [question_request example_env (ustr ''7'')])
             (answers_request example_env (ustr ''7'')) = Inr a"
    by blast
  with h1 h2 e h3 show ?thesis by blast
qed

section \<open>Empty results\<close>

lemma filter_answers_objects:
  "list_all is_object xs \<Longrightarrow> filter_answers xs = Inr (filter is_answer xs)"
proof (induction xs)
  case Nil
  then show ?case by simp
next
  case (Cons x xs)
  then obtain kvs where x: "x = PDict kvs" by (cases x) auto
  from Cons have "filter_answers xs = Inr (filter is_answer xs)" by simp
  with x show ?case by (auto split: option.splits)
qed

lemma search_questions_body_empty:
  "map_of d (ustr ''items'') = Some (PList []) \<Longrightarrow>
   search_questions_body env (PDict d) = Inr (ustr ''No relevant questions found.'')"
  by (simp add: search_questions_body_def ebind_def)

lemma search_excerpts_body_empty:
  "map_of d (ustr ''items'') = Some (PList []) \<Longrightarrow>
   search_excerpts_body env (PDict d) = Inr (ustr ''No relevant excerpts found.'')"
  by (simp add: search_excerpts_body_def ebind_def)

lemma search_by_tags_body_empty:
  "map_of d (ustr ''items'') = Some (PList []) \<Longrightarrow>
   search_by_tags_body env (PDict d) = Inr (ustr ''No questions found for the given tags.'')"
  by (simp add: search_by_tags_body_def ebind_def)

lemma fetch_question_body_empty:
  "map_of d (ustr ''items'') = Some (PList []) \<Longrightarrow>
   fetch_question_body env (PDict d) a_data = Inr (ustr ''Question not found.'')"
  by (simp add: fetch_question_body_def ebind_def)

lemma search_answers_body_objects:
  "map_of d (ustr ''items'') = Some (PList xs) \<Longrightarrow> list_all is_object xs \<Longrightarrow>
   search_answers_body env (PDict d) =
     (if filter is_answer xs = [] then Inr (ustr ''No relevant answers found.'')
      else ebind (for_append (render_answer env) (filter is_answer xs) [])
             (\<lambda>results. Inr (py_join (ustr ''\<newline>\<newline>'') results)))"
  by (simp add: search_answers_body_def ebind_def filter_answers_objects)

lemma single_request_success:
  assumes run: "\<exists>req. h = (except_Exception env (ebind (api_result net log req) body), log @ [req])"
    and log: "snd h = log @ [req]" and ok: "api_result net log req = Inr data"
  shows "fst h = except_Exception env (body data)"
proof -
  from run obtain r where r: "h = (except_Exception env (ebind (api_result net log r) body), log @ [r])"
    by blast
  with log have "r = req" by simp
  with r ok show ?thesis by (simp add: ebind_def)
qed

text \<open>
  Claim C4. When the request of a tool succeeds and the \<open>items\<close> list of the response
  is empty, the tool returns its sentinel and nothing else: \<open>No relevant questions found.\<close>
  for the search of questions, \<open>No relevant excerpts found.\<close> for the search of excerpts,
  \<open>No questions found for the given tags.\<close> for the search by tags. The search of answers
  returns \<open>No relevant answers found.\<close> when no item of the response, all of them JSON
  objects, has the \<open>item_type\<close> \<open>answer\<close>. The fetch of a question returns
  \<open>Question not found.\<close> when the list of the question response is empty and the request
  for the answers has succeeded too.
\<close>

theorem empty_items_sentinel:
  "(snd (stackoverflow_search_questions env net query log) = log @ [req]
      \<and> api_result net log req = Inr (PDict d) \<and> map_of d (ustr ''items'') = Some (PList [])
    \<longrightarrow> fst (stackoverflow_search_questions env net query log) = ustr ''No relevant questions found.'')
   \<and> (snd (stackoverflow_search_answers env net query log) = log @ [req]
      \<and> api_result net log req = Inr (PDict d) \<and> map_of d (ustr ''items'') = Some (PList xs)
      \<and> list_all is_object xs \<and> filter is_answer xs = []
    \<longrightarrow> fst (stackoverflow_search_answers env net query log) = ustr ''No relevant answers found.'')
   \<and> (snd (stackoverflow_search_excerpts env net query log) = log @ [req]
      \<and> api_result net log req = Inr (PDict d) \<and> map_of d (ustr ''items'') = Some (PList [])
    \<longrightarrow> fst (stackoverflow_search_excerpts env net query log) = ustr ''No relevant excerpts found.'')
   \<and> (api_result net log (question_request env query) = Inr (PDict d)
      \<and> map_of d (ustr ''items'') = Some (PList [])
      \<and> api_result net (log @ [question_request env query]) (answers_request env query) = Inr a_data
    \<longrightarrow> fst (stackoverflow_fetch_question_by_id env net query log) = ustr ''Question not found.'')
   \<and> (snd (stackoverflow_search_by_tags env net query log) = log @ [req]
      \<and> api_result net log req = Inr (PDict d) \<and> map_of d (ustr ''items'') = Some (PList [])
    \<longrightarrow> fst (stackoverflow_search_by_tags env net query log) = ustr ''No questions found for the given tags.'')"
proof (intro conjI impI; elim conjE)
  show "fst (stackoverflow_search_questions env net query log) = ustr ''No relevant questions found.''"
    if "snd (stackoverflow_search_questions env net query log) = log @ [req]"
      "api_result net log req = Inr (PDict d)" "map_of d (ustr ''items'') = Some (PList [])"
    using single_request_success [OF search_questions_run that(1,2)] that(3)
    by (simp add: search_questions_body_empty except_Exception_def)
  show "fst (stackoverflow_search_answers env net query log) = ustr ''No relevant answers found.''"
    if "snd (stackoverflow_search_answers env net query log) = log @ [req]"
      "api_result net log req = Inr (PDict d)" "map_of d (ustr ''items'') = Some (PList xs)"
      "list_all is_object xs" "filter is_answer xs = []"
    using single_request_success [OF search_answers_run that(1,2)] that(3,4,5)
    by (simp add: search_answers_body_objects except_Exception_def)
  show "fst (stackoverflow_search_excerpts env net query log) = ustr ''No relevant excerpts found.''"
    if "snd (stackoverflow_search_excerpts env net query log) = log @ [req]"
      "api_result net log req = Inr (PDict d)" "map_of d (ustr ''items'') = Some (PList [])"
    using single_request_success [OF search_excerpts_run that(1,2)] that(3)
    by (simp add: search_excerpts_body_empty except_Exception_def)
  show "fst (stackoverflow_fetch_question_by_id env net query log) = ustr ''Question not found.''"
    if "api_result net log (question_request env query) = Inr (PDict d)"
      "map_of d (ustr ''items'') = Some (PList [])"
      "api_result net (log @ [question_request env query]) (answers_request env query) = Inr a_data"
    using that
    by (simp add: fetch_question_run ebind_def fetch_question_body_empty except_Exception_def)
  show "fst (stackoverflow_search_by_tags env net query log) = ustr ''No questions found for the given tags.''"
    if "snd (stackoverflow_search_by_tags env net query log) = log @ [req]"
      "api_result net log req = Inr (PDict d)" "map_of d (ustr ''items'') = Some (PList [])"
    using single_request_success [OF search_by_tags_run that(1,2)] that(3)
    by (simp add: search_by_tags_body_empty except_Exception_def)
qed

theorem empty_items_sentinel_witness:
  "api_result (scripted [ok (items_of []), ok (items_of [])]) [] (question_request example_env (ustr ''7''))
     = Inr (PDict [(ustr ''items'', PList [])])
   \<and> map_of [(ustr ''items'', PList [])] (ustr ''items'') = Some (PList [])
   \<and> api_result (scripted [ok (items_of []), ok (items_of [])]) ([] @ [question_request example_env (ustr ''7'')])
         (answers_request example_env (ustr ''7'')) = Inr (items_of [])
   \<and> fst (stackoverflow_fetch_question_by_id example_env (scripted [ok (items_of []), ok (items_of [])])
            (ustr ''7'') []) = ustr ''Question not found.''
   \<and> snd (stackoverflow_search_answers example_env
            (scripted [ok (items_of [PDict [(ustr ''item_type'', PStr (ustr ''question''))], PDict []])])
            (ustr ''7'') [])
       = [] @ [\<lparr>req_url = ustr ''https://api.example.com/2.3/search/excerpts'',
                 req_headers = [(ustr ''X-API-Access-Token'', PStr (ustr ''secret''))],
                 req_params = [(ustr ''order'', PStr (ustr ''desc'')),
                               (ustr ''sort'', PStr (ustr ''relevance'')),
                               (ustr ''q'', PStr (ustr ''7'')),
                               (ustr ''team'', PStr (ustr ''acme'')),
                               (ustr ''pagesize'', PInt 5)],
                 req_timeout = 10\<rparr>]
   \<and> list_all is_object [PDict [(ustr ''item_type'', PStr (ustr ''question''))], PDict []]
   \<and> filter is_answer [PDict [(ustr ''item_type'', PStr (ustr ''question''))], PDict []] = []
   \<and> fst (stackoverflow_search_answers example_env
            (scripted [ok (items_of [PDict [(ustr ''item_type'', PStr (ustr ''question''))], PDict []])])
            (ustr ''7'') []) = ustr ''No relevant answers found.''"
proof -
  let ?n = "scripted [ok (items_of []), ok (items_of [])]"
  let ?xs = "[PDict [(ustr ''item_type'', PStr (ustr ''question''))], PDict []]"
  let ?m = "scripted [ok (items_of ?xs)]"
  let ?r = "\<lparr>req_url = ustr ''https://api.example.com/2.3/search/excerpts'',
                 req_headers = [(ustr ''X-API-Access-Token'', PStr (ustr ''secret''))],
                 req_params = [(ustr ''order'', PStr (ustr ''desc'')),
                               (ustr ''sort'', PStr (ustr ''relevance'')),
                               (ustr ''q'', PStr (ustr ''7'')),
                               (ustr ''team'', PStr (ustr ''acme'')),
                               (ustr ''pagesize'', PInt 5)],
                 req_timeout = 10\<rparr>"
  have h1: "api_result ?n [] (question_request example_env (ustr ''7'')) = Inr (PDict [(ustr ''items'', PList [])])"
    by (simp add: api_result_def scripted_def ok_def ebind_def raise_for_status_def items_of_def)
  have h2: "map_of [(ustr ''items'', PList [])] (ustr ''items'') = Some (PList [])"
    by simp
  have h3: "api_result ?n ([] @ [question_request example_env (ustr ''7'')])
         (answers_request example_env (ustr ''7'')) = Inr (items_of [])"
    by (simp add: api_result_def scripted_def ok_def ebind_def raise_for_status_def)
  have g1: "snd (stackoverflow_search_answers example_env ?m (ustr ''7'') []) = [] @ [?r]"
    by (simp add: stackoverflow_search_answers_def http_get_eq Let_def example_env_def ustr_def)
  have g2: "api_result ?m [] ?r = Inr (PDict [(ustr ''items'', PList ?xs)])"
    by (simp add: api_result_def scripted_def ok_def ebind_def raise_for_status_def items_of_def)
  have g3: "map_of [(ustr ''items'', PList ?xs)] (ustr ''items'') = Some (PList ?xs)"
    by simp
  have g4: "list_all is_object ?xs" by simp
  have g5: "filter is_answer ?xs = []" by (simp add: ustr_def)
  note a = empty_items_sentinel [of example_env ?n "ustr ''7''" "[]" _ "[(ustr ''items'', PList [])]" _ "items_of []"]
  note b = empty_items_sentinel [of example_env ?m "ustr ''7''" "[]" ?r "[(ustr ''items'', PList ?xs)]" ?xs]
  from a h1 h2 h3 have r1: "fst (stackoverflow_fetch_question_by_id example_env ?n (ustr ''7'') [])
      = ustr ''Question not found.''"
    by blast
  from b g1 g2 g3 g4 g5 have r2: "fst (stackoverflow_search_answers example_env ?m (ustr ''7'') [])
      = ustr ''No relevant answers found.''"
    by blast
  from h1 h2 h3 r1 g1 g4 g5 r2 show ?thesis by blast
qed

section \<open>The constructed link\<close>










section \<open>The filter of the answer search\<close>

lemma for_append_map:
  "\<forall>x\<in>set xs. f x = Inr (g x) \<Longrightarrow> for_append f xs acc = Inr (acc @ map g xs)"
  by (induction xs arbitrary: acc) auto

text \<open>
  Claim C5. Of the items of the response, all of them JSON objects, the search of answers
  renders those whose \<open>item_type\<close> is \<open>answer\<close> and no other: the result is the
  sentinel when there is no such item, and otherwise the renderings of these items alone,
  in their order, joined by an empty line. An item with another \<open>item_type\<close>, or without
  one, takes no part in the result.
\<close>

theorem search_answers_only_answers:
  "snd (stackoverflow_search_answers env net query log) = log @ [req]
   \<and> api_result net log req = Inr (PDict d) \<and> map_of d (ustr ''items'') = Some (PList xs)
   \<and> list_all is_object xs \<longrightarrow>
   fst (stackoverflow_search_answers env net query log) =
     except_Exception env
       (if filter is_answer xs = [] then Inr (ustr ''No relevant answers found.'')
        else ebind (for_append (render_answer env) (filter is_answer xs) [])
               (\<lambda>results. Inr (py_join (ustr ''\<newline>\<newline>'') results)))
   \<and> ((\<forall>x\<in>set (filter is_answer xs). render_answer env x = Inr (r x)) \<longrightarrow>
        fst (stackoverflow_search_answers env net query log) =
          (if filter is_answer xs = [] then ustr ''No relevant answers found.''
           else py_join (ustr ''\<newline>\<newline>'') (map r (filter is_answer xs))))"
proof (intro impI, elim conjE)
  assume log: "snd (stackoverflow_search_answers env net query log) = log @ [req]"
    and res: "api_result net log req = Inr (PDict d)"
    and items: "map_of d (ustr ''items'') = Some (PList xs)"
    and objs: "list_all is_object xs"
  have run: "fst (stackoverflow_search_answers env net query log)
      = except_Exception env (search_answers_body env (PDict d))"
    using single_request_success [OF search_answers_run log res] .
  have body: "search_answers_body env (PDict d) =
     (if filter is_answer xs = [] then Inr (ustr ''No relevant answers found.'')
      else ebind (for_append (render_answer env) (filter is_answer xs) [])
             (\<lambda>results. Inr (py_join (ustr ''\<newline>\<newline>'') results)))"
    using items objs by (rule search_answers_body_objects)
  show "fst (stackoverflow_search_answers env net query log) =
     except_Exception env
       (if filter is_answer xs = [] then Inr (ustr ''No relevant answers found.'')
        else ebind (for_append (render_answer env) (filter is_answer xs) [])
               (\<lambda>results. Inr (py_join (ustr ''\<newline>\<newline>'') results)))
   \<and> ((\<forall>x\<in>set (filter is_answer xs). render_answer env x = Inr (r x)) \<longrightarrow>
        fst (stackoverflow_search_answers env net query log) =
          (if filter is_answer xs = [] then ustr ''No relevant answers found.''
           else py_join (ustr ''\<newline>\<newline>'') (map r (filter is_answer xs))))"
  proof (intro conjI impI)
    show "fst (stackoverflow_search_answers env net query log) =
     except_Exception env
       (if filter is_answer xs = [] then Inr (ustr ''No relevant answers found.'')
        else ebind (for_append (render_answer env) (filter is_answer xs) [])
               (\<lambda>results. Inr (py_join (ustr ''\<newline>\<newline>'') results)))"
      using run body by simp
    assume "\<forall>x\<in>set (filter is_answer xs). render_answer env x = Inr (r x)"
    then have "for_append (render_answer env) (filter is_answer xs) [] = Inr ([] @ map r (filter is_answer xs))"
      by (rule for_append_map)
    with run body show "fst (stackoverflow_search_answers env net query log) =
          (if filter is_answer xs = [] then ustr ''No relevant answers found.''
           else py_join (ustr ''\<newline>\<newline>'') (map r (filter is_answer xs)))"
      by (simp add: except_Exception_def ebind_def)
  qed
qed

theorem search_answers_only_answers_witness:
  "snd (stackoverflow_search_answers example_env
          (scripted [ok (items_of
             [PDict [(ustr ''item_type'', PStr (ustr ''question'')), (ustr ''excerpt'', PStr (ustr ''q1''))],
              PDict [(ustr ''item_type'', PStr (ustr ''answer'')), (ustr ''excerpt'', PStr (ustr ''a1'')),
                     (ustr ''question_id'', PInt 42)],
              PDict [(ustr ''excerpt'', PStr (ustr ''none''))],
              PDict [(ustr ''item_type'', PStr (ustr ''answer'')), (ustr ''excerpt'', PStr (ustr ''a2''))]])])
          (ustr ''x'') [])
     = [] @ [\<lparr>req_url = ustr ''https://api.example.com/2.3/search/excerpts'',
               req_headers = [(ustr ''X-API-Access-Token'', PStr (ustr ''secret''))],
               req_params = [(ustr ''order'', PStr (ustr ''desc'')),
                             (ustr ''sort'', PStr (ustr ''relevance'')),
                             (ustr ''q'', PStr (ustr ''x'')),
                             (ustr ''team'', PStr (ustr ''acme'')),
                             (ustr ''pagesize'', PInt 5)],
               req_timeout = 10\<rparr>]
   \<and> list_all is_object
        [PDict [(ustr ''item_type'', PStr (ustr ''question'')), (ustr ''excerpt'', PStr (ustr ''q1''))],
         PDict [(ustr ''item_type'', PStr (ustr ''answer'')), (ustr ''excerpt'', PStr (ustr ''a1'')),
                (ustr ''question_id'', PInt 42)],
         PDict [(ustr ''excerpt'', PStr (ustr ''none''))],
         PDict [(ustr ''item_type'', PStr (ustr ''answer'')), (ustr ''excerpt'', PStr (ustr ''a2''))]]
   \<and> fst (stackoverflow_search_answers example_env
          (scripted [ok (items_of
             [PDict [(ustr ''item_type'', PStr (ustr ''question'')), (ustr ''excerpt'', PStr (ustr ''q1''))],
              PDict [(ustr ''item_type'', PStr (ustr ''answer'')), (ustr ''excerpt'', PStr (ustr ''a1'')),
                     (ustr ''question_id'', PInt 42)],
              PDict [(ustr ''excerpt'', PStr (ustr ''none''))],
              PDict [(ustr ''item_type'', PStr (ustr ''answer'')), (ustr ''excerpt'', PStr (ustr ''a2''))]])])
          (ustr ''x'') [])
     = ustr ''**Answer Excerpt:**\<newline>a1\<newline>'' @ link_emoji
       @ ustr '' [View Answer](https://acme.stackoverflowteams.com/c/acme/questions/42)\<newline>\<newline>**Answer Excerpt:**\<newline>a2\<newline>''
       @ link_emoji @ ustr '' [View Answer](#)''"
proof -
  let ?i1 = "PDict [(ustr ''item_type'', PStr (ustr ''question'')), (ustr ''excerpt'', PStr (ustr ''q1''))]"
  let ?i2 = "PDict [(ustr ''item_type'', PStr (ustr ''answer'')), (ustr ''excerpt'', PStr (ustr ''a1'')),
                     (ustr ''question_id'', PInt 42)]"
  let ?i3 = "PDict [(ustr ''excerpt'', PStr (ustr ''none''))]"
  let ?i4 = "PDict [(ustr ''item_type'', PStr (ustr ''answer'')), (ustr ''excerpt'', PStr (ustr ''a2''))]"
  let ?xs = "[?i1, ?i2, ?i3, ?i4]"
  let ?n = "scripted [ok (items_of ?xs)]"
  let ?req = "\<lparr>req_url = ustr ''https://api.example.com/2.3/search/excerpts'',
               req_headers = [(ustr ''X-API-Access-Token'', PStr (ustr ''secret''))],
               req_params = [(ustr ''order'', PStr (ustr ''desc'')),
                             (ustr ''sort'', PStr (ustr ''relevance'')),
                             (ustr ''q'', PStr (ustr ''x'')),
                             (ustr ''team'', PStr (ustr ''acme'')),
                             (ustr ''pagesize'', PInt 5)],
               req_timeout = 10\<rparr>"
  let ?r = "\<lambda>x. case render_answer example_env x of Inr s \<Rightarrow> s | Inl e \<Rightarrow> []"
  have h1: "snd (stackoverflow_search_answers example_env ?n (ustr ''x'') []) = [] @ [?req]"
    by (simp add: stackoverflow_search_answers_def http_get_eq Let_def example_env_def ustr_def)
  have h2: "api_result ?n [] ?req = Inr (PDict [(ustr ''items'', PList ?xs)])"
    by (simp add: api_result_def scripted_def ok_def ebind_def raise_for_status_def items_of_def)
  have h3: "map_of [(ustr ''items'', PList ?xs)] (ustr ''items'') = Some (PList ?xs)" by simp
  have h4: "list_all is_object ?xs" by simp
  have f: "filter is_answer ?xs = [?i2, ?i4]" by (simp add: ustr_def)
  have r2: "render_answer example_env ?i2
      = Inr (ustr ''**Answer Excerpt:**\<newline>a1\<newline>'' @ link_emoji
             @ ustr '' [View Answer](https://acme.stackoverflowteams.com/c/acme/questions/42)'')"
    by (simp add: render_answer_def ebind_def example_env_def clean_html_def unescape_def
        py_strip_def py_isspace_def str_int_def digits.simps ustr_def)
  have r4: "render_answer example_env ?i4
      = Inr (ustr ''**Answer Excerpt:**\<newline>a2\<newline>'' @ link_emoji @ ustr '' [View Answer](#)'')"
    by (simp add: render_answer_def ebind_def example_env_def clean_html_def unescape_def
        py_strip_def py_isspace_def ustr_def)
  have h5: "\<forall>x\<in>set (filter is_answer ?xs). render_answer example_env x = Inr (?r x)"
    unfolding f by (simp add: r2 r4)
  from search_answers_only_answers [where env = example_env and net = ?n and query = "ustr ''x''"
      and log = "[]" and req = ?req and d = "[(ustr ''items'', PList ?xs)]" and xs = ?xs and r = ?r]
    h1 h2 h3 h4 h5
  have "fst (stackoverflow_search_answers example_env ?n (ustr ''x'') [])
      = (if filter is_answer ?xs = [] then ustr ''No relevant answers found.''
         else py_join (ustr ''\<newline>\<newline>'') (map ?r (filter is_answer ?xs)))"
    by blast
  then have "fst (stackoverflow_search_answers example_env ?n (ustr ''x'') [])
      = ustr ''**Answer Excerpt:**\<newline>a1\<newline>'' @ link_emoji
       @ ustr '' [View Answer](https://acme.stackoverflowteams.com/c/acme/questions/42)\<newline>\<newline>**Answer Excerpt:**\<newline>a2\<newline>''
       @ link_emoji @ ustr '' [View Answer](#)''"
    unfolding f by (simp add: r2 r4) (simp add: ustr_def)
  with h1 h4 show ?thesis by blast
qed

section \<open>A question without answers\<close>

lemma sublist_separator:
  assumes c: "c \<notin> set p" and s: "sublist p (xs @ c # ys)"
  shows "sublist p xs \<or> sublist p ys"
proof -
  from s consider "sublist p xs" | "sublist p (c # ys)"
    | xs1 xs2 where "p = xs1 @ xs2" "suffix xs1 xs" "prefix xs2 (c # ys)"
    by (auto simp: sublist_append)
  then show ?thesis
  proof cases
    case 1
    then show ?thesis by simp
  next
    case 2
    then have "prefix p (c # ys) \<or> sublist p ys" by (simp add: sublist_Cons_right)
    moreover have "p = []" if "prefix p (c # ys)"
      using that c by (cases p) auto
    ultimately show ?thesis by auto
  next
    case 3
    from 3(3) c 3(1) have "xs2 = []" by (cases xs2) auto
    with 3 show ?thesis by auto
  qed
qed

lemma score_not_in_response:
  assumes t: "\<not> sublist (ustr ''**Score:**'') title" and b: "\<not> sublist (ustr ''**Score:**'') body"
  shows "\<not> sublist (ustr ''**Score:**'')
           (ustr ''## '' @ title @ ustr ''\<newline>\<newline>'' @ body @ ustr ''\<newline>\<newline>''
            @ ustr ''\<newline>\<newline>_No answers found._'')"
proof
  let ?p = "ustr ''**Score:**''"
  let ?tail = "ustr ''\<newline>\<newline>\<newline>_No answers found._''"
  assume s: "sublist ?p
           (ustr ''## '' @ title @ ustr ''\<newline>\<newline>'' @ body @ ustr ''\<newline>\<newline>''
            @ ustr ''\<newline>\<newline>_No answers found._'')"
  have sp: "32 \<notin> set ?p" and nl: "10 \<notin> set ?p" and star: "42 \<in> set ?p"
    by (simp_all add: ustr_def)
  have ne: "?p \<noteq> []" by (simp add: ustr_def)
  from s have "sublist ?p ([35, 35] @ 32 # (title @ 10 # (10 # body @ 10 # ?tail)))"
    by (simp add: ustr_def)
  from sublist_separator [OF sp this]
  have "sublist ?p [35, 35] \<or> sublist ?p (title @ 10 # (10 # body @ 10 # ?tail))" .
  moreover have "\<not> sublist ?p [35, 35]"
  proof
    assume "sublist ?p [35, 35]"
    then have "set ?p \<subseteq> set [35, 35]" by (rule set_mono_sublist)
    with star have "(42::nat) \<in> set [35, 35]" by blast
    then show False by simp
  qed
  ultimately have "sublist ?p (title @ 10 # (10 # body @ 10 # ?tail))" by simp
  from sublist_separator [OF nl this] t have "sublist ?p ([] @ 10 # (body @ 10 # ?tail))" by simp
  from sublist_separator [OF nl this] ne have "sublist ?p (body @ 10 # ?tail)" by simp
  from sublist_separator [OF nl this] b have "sublist ?p ?tail" by simp
  then have "set ?p \<subseteq> set ?tail" by (rule set_mono_sublist)
  with star have "42 \<in> set ?tail" by blast
  then show False by (simp add: ustr_def)
qed

lemma fetch_question_body_no_answers:
  assumes "map_of qd (ustr ''items'') = Some (PList (PDict q # qs))"
    and "clean_html_call env (field_or q (ustr ''title'') (PStr [])) = Inr title"
    and "clean_html_call env (field_or q (ustr ''body'') (PStr [])) = Inr body"
    and "field_or ad (ustr ''items'') (PList []) = PList []"
  shows "fetch_question_body env (PDict qd) (PDict ad) =
     Inr (ustr ''## '' @ title @ ustr ''\<newline>\<newline>'' @ body @ ustr ''\<newline>\<newline>''
          @ ustr ''\<newline>\<newline>_No answers found._'')"
  using assms by (simp add: fetch_question_body_def ebind_def field_or_def Let_def)

text \<open>
  Claim C8. When both requests of the fetch succeed, the list of the question response is
  not empty, its first item is a JSON object whose title and body the cleaner accepts, and
  the answers response has an empty \<open>items\<close> list (or none), the returned string contains
  \<open>_No answers found._\<close>; and it contains no \<open>**Score:**\<close> unless the cleaned title
  or body of the question does.
\<close>

theorem fetch_question_without_answers:
  "api_result net log (question_request env question_id) = Inr (PDict qd)
   \<and> map_of qd (ustr ''items'') = Some (PList (PDict q # qs))
   \<and> clean_html_call env (field_or q (ustr ''title'') (PStr [])) = Inr title
   \<and> clean_html_call env (field_or q (ustr ''body'') (PStr [])) = Inr body
   \<and> api_result net (log @ [question_request env question_id]) (answers_request env question_id)
       = Inr (PDict ad)
   \<and> field_or ad (ustr ''items'') (PList []) = PList []
   \<and> \<not> sublist (ustr ''**Score:**'') title \<and> \<not> sublist (ustr ''**Score:**'') body
   \<longrightarrow> sublist (ustr ''_No answers found._'')
         (fst (stackoverflow_fetch_question_by_id env net question_id log))
     \<and> \<not> sublist (ustr ''**Score:**'')
         (fst (stackoverflow_fetch_question_by_id env net question_id log))"
proof (intro impI, elim conjE)
  assume q: "api_result net log (question_request env question_id) = Inr (PDict qd)"
    and items: "map_of qd (ustr ''items'') = Some (PList (PDict q # qs))"
    and t: "clean_html_call env (field_or q (ustr ''title'') (PStr [])) = Inr title"
    and b: "clean_html_call env (field_or q (ustr ''body'') (PStr [])) = Inr body"
    and a: "api_result net (log @ [question_request env question_id]) (answers_request env question_id)
       = Inr (PDict ad)"
    and none: "field_or ad (ustr ''items'') (PList []) = PList []"
    and nt: "\<not> sublist (ustr ''**Score:**'') title" and nb: "\<not> sublist (ustr ''**Score:**'') body"
  have res: "fst (stackoverflow_fetch_question_by_id env net question_id log) =
      ustr ''## '' @ title @ ustr ''\<newline>\<newline>'' @ body @ ustr ''\<newline>\<newline>''
      @ ustr ''\<newline>\<newline>_No answers found._''"
    using q a fetch_question_body_no_answers [OF items t b none]
    by (simp add: fetch_question_run ebind_def except_Exception_def)
  have "sublist (ustr ''_No answers found._'')
      ((ustr ''## '' @ title @ ustr ''\<newline>\<newline>'' @ body @ ustr ''\<newline>\<newline>'' @ ustr ''\<newline>\<newline>'')
       @ ustr ''_No answers found._'')"
    by (rule sublist_append_leftI)
  then have "sublist (ustr ''_No answers found._'')
      (fst (stackoverflow_fetch_question_by_id env net question_id log))"
    by (simp add: res ustr_def)
  moreover have "\<not> sublist (ustr ''**Score:**'')
      (fst (stackoverflow_fetch_question_by_id env net question_id log))"
    unfolding res using nt nb by (rule score_not_in_response)
  ultimately show "sublist (ustr ''_No answers found._'')
         (fst (stackoverflow_fetch_question_by_id env net question_id log))
     \<and> \<not> sublist (ustr ''**Score:**'')
         (fst (stackoverflow_fetch_question_by_id env net question_id log))"
    by simp
qed

theorem fetch_question_without_answers_witness:
  "api_result (scripted [ok (items_of [PDict [(ustr ''title'', PStr (ustr ''<p>T</p>'')),
                                               (ustr ''body'', PStr (ustr ''B''))]]),
                         ok (items_of [])]) [] (question_request example_env (ustr ''7''))
     = Inr (PDict [(ustr ''items'', PList [PDict [(ustr ''title'', PStr (ustr ''<p>T</p>'')),
                                                    (ustr ''body'', PStr (ustr ''B''))]])])
   \<and> clean_html_call example_env
        (field_or [(ustr ''title'', PStr (ustr ''<p>T</p>'')), (ustr ''body'', PStr (ustr ''B''))]
           (ustr ''title'') (PStr [])) = Inr (ustr ''T'')
   \<and> clean_html_call example_env
        (field_or [(ustr ''title'', PStr (ustr ''<p>T</p>'')), (ustr ''body'', PStr (ustr ''B''))]
           (ustr ''body'') (PStr [])) = Inr (ustr ''B'')
   \<and> field_or [(ustr ''items'', PList [])] (ustr ''items'') (PList []) = PList []
   \<and> \<not> sublist (ustr ''**Score:**'') (ustr ''T'') \<and> \<not> sublist (ustr ''**Score:**'') (ustr ''B'')
   \<and> sublist (ustr ''_No answers found._'')
        (fst (stackoverflow_fetch_question_by_id example_env
               (scripted [ok (items_of [PDict [(ustr ''title'', PStr (ustr ''<p>T</p>'')),
                                                (ustr ''body'', PStr (ustr ''B''))]]),
                          ok (items_of [])]) (ustr ''7'') []))
   \<and> \<not> sublist (ustr ''**Score:**'')
        (fst (stackoverflow_fetch_question_by_id example_env
               (scripted [ok (items_of [PDict [(ustr ''title'', PStr (ustr ''<p>T</p>'')),
                                                (ustr ''body'', PStr (ustr ''B''))]]),
                          ok (items_of [])]) (ustr ''7'') []))"
proof -
  let ?q = "[(ustr ''title'', PStr (ustr ''<p>T</p>'')), (ustr ''body'', PStr (ustr ''B''))]"
  let ?n = "scripted [ok (items_of [PDict ?q]), ok (items_of [])]"
  have h1: "api_result ?n [] (question_request example_env (ustr ''7''))
      = Inr (PDict [(ustr ''items'', PList [PDict ?q])])"
    by (simp add: api_result_def scripted_def ok_def ebind_def raise_for_status_def items_of_def)
  have h2: "map_of [(ustr ''items'', PList [PDict ?q])] (ustr ''items'') = Some (PList (PDict ?q # []))"
    by simp
  have h3: "clean_html_call example_env (field_or ?q (ustr ''title'') (PStr [])) = Inr (ustr ''T'')"
    by (simp add: field_or_def example_env_def clean_html_def unescape_def py_strip_def
        py_isspace_def ustr_def)
  have h4: "clean_html_call example_env (field_or ?q (ustr ''body'') (PStr [])) = Inr (ustr ''B'')"
    by (simp add: field_or_def example_env_def clean_html_def unescape_def py_strip_def
        py_isspace_def ustr_def)
  have h5: "api_result ?n ([] @ [question_request example_env (ustr ''7'')])
      (answers_request example_env (ustr ''7'')) = Inr (PDict [(ustr ''items'', PList [])])"
    by (simp add: api_result_def scripted_def ok_def ebind_def raise_for_status_def items_of_def)
  have h6: "field_or [(ustr ''items'', PList [])] (ustr ''items'') (PList []) = PList []"
    by (simp add: field_or_def)
  have h7: "\<not> sublist (ustr ''**Score:**'') (ustr ''T'')"
    by (simp add: ustr_def sublist_Cons_right)
  have h8: "\<not> sublist (ustr ''**Score:**'') (ustr ''B'')"
    by (simp add: ustr_def sublist_Cons_right)
  from fetch_question_without_answers [where net = ?n and log = "[]" and env = example_env
      and question_id = "ustr ''7''" and qd = "[(ustr ''items'', PList [PDict ?q])]" and q = ?q
      and qs = "[]" and title = "ustr ''T''" and body = "ustr ''B''"
      and ad = "[(ustr ''items'', PList [])]"]
    h1 h2 h3 h4 h5 h6 h7 h8
  have "sublist (ustr ''_No answers found._'')
         (fst (stackoverflow_fetch_question_by_id example_env ?n (ustr ''7'') []))
     \<and> \<not> sublist (ustr ''**Score:**'')
         (fst (stackoverflow_fetch_question_by_id example_env ?n (ustr ''7'') []))"
    by blast
  with h1 h3 h4 h6 h7 h8 show ?thesis by blast
qed

section \<open>Which texts pass through the cleaner\<close>

























end
